theory Spec2Isabelle
  imports Main "HOL-Library.Sublist"
begin

section \<open>Python values used by the scripts\<close>

text \<open>
  A Python \<open>str\<close> is a sequence of Unicode code points; it is modelled as a list of
  code-point numbers, so that \<open>strip\<close> sees the same characters as Python does.
  \<open>py\<close> turns an ASCII literal of the source into such a list.
\<close>

type_synonym pystr = "nat list"

definition py :: "string \<Rightarrow> pystr" where
  "py s = map of_char s"

text \<open>
  \<open>str.isspace\<close> on one code point: the characters Python treats as whitespace
  (TAB..CR, FS..US and SPACE, NEL, NBSP, and the Unicode space separators).
\<close>

definition isspace :: "nat \<Rightarrow> bool" where
  "isspace c \<longleftrightarrow>
     (9 \<le> c \<and> c \<le> 13) \<or> (28 \<le> c \<and> c \<le> 32) \<or> c = 133 \<or> c = 160 \<or> c = 5760 \<or>
     (8192 \<le> c \<and> c \<le> 8202) \<or> c = 8232 \<or> c = 8233 \<or> c = 8239 \<or> c = 8287 \<or>
     c = 12288"

text \<open>\<open>s.strip()\<close>: leading and trailing whitespace removed.\<close>

definition strip :: "pystr \<Rightarrow> pystr" where
  "strip s = rev (dropWhile isspace (rev (dropWhile isspace s)))"

text \<open>
  \<open>y[a:b]\<close> on a one-dimensional array with integer bounds: a negative bound counts
  from the end, and both bounds are clamped to \<open>0 .. len(y)\<close>; the slice is empty when
  the upper bound does not exceed the lower one. It never raises.
\<close>

definition slice_index :: "nat \<Rightarrow> int \<Rightarrow> nat" where
  "slice_index n i =
     (if i < 0 then (if i + int n < 0 then 0 else nat (i + int n))
      else if int n < i then n else nat i)"

definition py_slice :: "'a list \<Rightarrow> int \<Rightarrow> int \<Rightarrow> 'a list" where
  "py_slice y a b =
     (let lo = slice_index (length y) a; hi = slice_index (length y) b
      in take (hi - lo) (drop lo y))"

text \<open>
  Exceptions (all of them subclasses of Python's \<open>Exception\<close>). \<open>LibraryError\<close> is
  any exception raised inside a third-party call, with its message \<open>str(e)\<close>.
\<close>

datatype error =
    LibraryError pystr
  | ValueError
  | OverflowError
  | ZeroDivisionError
  | StreamlitAPIException

section \<open>The third-party interface\<close>

text \<open>
  A diarization turn as \<open>itertracks(yield_label=True)\<close> yields it: the segment's
  \<open>start\<close> and \<open>end\<close> and the speaker label (the track name in between is bound to
  \<open>_\<close> by every loop of the repository and is left out). Times are Python floats; the
  model is polymorphic in the type \<open>'t\<close> of times and takes the two float operations
  the code applies to them as parameters, so every theorem holds for IEEE doubles.
\<close>

record 't turn =
  turn_start :: 't
  turn_end :: 't
  turn_speaker :: pystr

text \<open>
  The loaded objects. A pipeline is called with a path and sees the file stored there
  (\<open>None\<close> when there is none); the transcription model is called with a sample array
  and the code reads the \<open>"text"\<close> entry of what it returns. \<open>'w\<close> is the type of file
  contents, \<open>'a\<close> the type of one audio sample.
\<close>

type_synonym ('t, 'w) pipeline = "'w option \<Rightarrow> error + 't turn list"
type_synonym 'a whisper = "'a list \<Rightarrow> error + pystr"

text \<open>
  \<^item> \<open>from_pretrained tok\<close> is \<open>Pipeline.from_pretrained("pyannote/speaker-diarization-3.1",
    use_auth_token=tok)\<close>;
  \<^item> \<open>load_model\<close> is \<open>whisper.load_model("base", device="cpu")\<close>;
  \<^item> \<open>resample f r\<close> is the waveform \<open>librosa.load\<close> decodes from file \<open>f\<close> at target
    rate \<open>r\<close>;
  \<^item> \<open>int_mul t r\<close> is \<open>int(t * r)\<close> (it raises on NaN and on infinities);
  \<^item> \<open>format_2f t\<close> is \<open>format(t, ".2f")\<close>.
\<close>

record ('t, 'a, 'w) lib =
  from_pretrained :: "pystr option \<Rightarrow> error + ('t, 'w) pipeline"
  load_model :: "error + 'a whisper"
  resample :: "'w option \<Rightarrow> nat \<Rightarrow> error + 'a list"
  int_mul :: "'t \<Rightarrow> nat \<Rightarrow> error + int"
  format_2f :: "'t \<Rightarrow> pystr"

text \<open>
  \<open>librosa.load(path, sr=r)\<close> returns the resampled waveform together with the rate it
  was asked for.
\<close>

definition librosa_load ::
  "('t, 'a, 'w) lib \<Rightarrow> 'w option \<Rightarrow> nat \<Rightarrow> error + ('a list \<times> nat)" where
  "librosa_load L f r = (case resample L f r of Inl e \<Rightarrow> Inl e | Inr y \<Rightarrow> Inr (y, r))"

text \<open>
  What a run does to the outside world, in order: calls into the libraries, Streamlit
  elements, and writes to the output files. \<open>Progress n total\<close> is
  \<open>progress_bar.progress(n / total)\<close>; spinners, the creation and the emptying of the
  progress bar, page layout and console status messages are not recorded.
\<close>

datatype ('t, 'a) event =
    Call_from_pretrained "pystr option"
  | Call_load_model
  | Call_pipeline
  | Call_librosa_load nat
  | Call_transcribe "'a list"
  | Progress nat nat
  | St_error_token
  | St_error_loading error
  | St_error_processing error
  | St_success_models
  | St_success_uploaded pystr
  | St_success_complete nat nat
  | St_warning_no_segments
  | St_info_click
  | St_info_upload
  | Display_transcription
  | Download_button pystr pystr
  | Write pystr
  | Write_rttm "'t turn list"

section \<open>The interactive application: \<open>app/st-app.py\<close>\<close>

subsection \<open>\<open>process_audio\<close>\<close>

text \<open>
  The dictionary literal appended by \<open>process_audio\<close> has the four fixed keys
  \<open>"start"\<close>, \<open>"end"\<close>, \<open>"speaker"\<close> and \<open>"text"\<close>; it is a record with these four
  fields.
\<close>

record 't segment =
  seg_start :: 't
  seg_end :: 't
  seg_speaker :: pystr
  seg_text :: pystr

text \<open>
  \<open>progress_bar.progress(n / total_segments)\<close>: the division raises when the divisor
  is zero, and Streamlit rejects a value above \<open>1.0\<close>.
\<close>

definition progress_update :: "nat \<Rightarrow> nat \<Rightarrow> error + unit" where
  "progress_update n total_segments =
     (if total_segments = 0 then Inl ZeroDivisionError
      else if total_segments < n then Inl StreamlitAPIException
      else Inr ())"

text \<open>
  The \<open>for i, (turn, _, speaker) in enumerate(...)\<close> loop. \<open>i\<close> is the running index,
  \<open>segments\<close> the list built so far and \<open>tr\<close> the events so far.
\<close>

fun process_audio_loop ::
  "('t, 'a, 'w) lib \<Rightarrow> 'a whisper \<Rightarrow> 'a list \<Rightarrow> nat \<Rightarrow> nat \<Rightarrow> nat \<Rightarrow> 't turn list \<Rightarrow>
   't segment list \<Rightarrow> ('t, 'a) event list \<Rightarrow> (error + 't segment list) \<times> ('t, 'a) event list" where
  "process_audio_loop L transcription_model y sr total_segments i [] segments tr =
     (Inr segments, tr)"
| "process_audio_loop L transcription_model y sr total_segments i (turn # rest) segments tr =
     (let start_time = turn_start turn; end_time = turn_end turn in
      (case int_mul L start_time sr of
         Inl e \<Rightarrow> (Inl e, tr)
       | Inr start_sample \<Rightarrow>
      (case int_mul L end_time sr of
         Inl e \<Rightarrow> (Inl e, tr)
       | Inr end_sample \<Rightarrow>
      (let segment = py_slice y start_sample end_sample;
           tr1 = tr @ [Call_transcribe segment] in
      (case transcription_model segment of
         Inl e \<Rightarrow> (Inl e, tr1)
       | Inr result_text \<Rightarrow>
      (let transcribed_text = strip result_text;
           segments1 =
             (if transcribed_text \<noteq> []
              then segments @ [\<lparr>seg_start = start_time, seg_end = end_time,
                                 seg_speaker = turn_speaker turn, seg_text = transcribed_text\<rparr>]
              else segments) in
      (case progress_update (i + 1) total_segments of
         Inl e \<Rightarrow> (Inl e, tr1)
       | Inr u \<Rightarrow>
          process_audio_loop L transcription_model y sr total_segments (i + 1) rest segments1
            (tr1 @ [Progress (i + 1) total_segments]))))))))"

text \<open>
  \<open>process_audio(_diarization_pipeline, _transcription_model, audio_path)\<close>, the body
  under the cache decorator. \<open>files\<close> is the file system the libraries read from.
\<close>

definition process_audio ::
  "('t, 'a, 'w) lib \<Rightarrow> ('t, 'w) pipeline \<Rightarrow> 'a whisper \<Rightarrow> (pystr \<rightharpoonup> 'w) \<Rightarrow> pystr \<Rightarrow>
   (error + ('t segment list \<times> 'a list \<times> nat)) \<times> ('t, 'a) event list" where
  "process_audio L diarization_pipeline transcription_model files audio_path =
     (case diarization_pipeline (files audio_path) of
        Inl e \<Rightarrow> (Inl e, [Call_pipeline])
      | Inr diarization \<Rightarrow>
     (case librosa_load L (files audio_path) 16000 of
        Inl e \<Rightarrow> (Inl e, [Call_pipeline, Call_librosa_load 16000])
      | Inr (y, sr) \<Rightarrow>
     (let total_segments = length diarization in
      case process_audio_loop L transcription_model y sr total_segments 0 diarization []
             [Call_pipeline, Call_librosa_load 16000] of
        (Inl e, tr) \<Rightarrow> (Inl e, tr)
      | (Inr segments, tr) \<Rightarrow> (Inr (segments, y, sr), tr))))"

text \<open>
  \<open>@st.cache_data\<close>: the cache is keyed on \<open>audio_path\<close> alone (the two arguments whose
  names start with an underscore are not hashed). A hit returns the stored value without
  running the body; a miss runs it and stores the value it returns; an exception is not
  stored.
\<close>

type_synonym ('t, 'a) data_cache = "pystr \<rightharpoonup> ('t segment list \<times> 'a list \<times> nat)"

definition process_audio_cached ::
  "('t, 'a, 'w) lib \<Rightarrow> ('t, 'a) data_cache \<Rightarrow> ('t, 'w) pipeline \<Rightarrow> 'a whisper \<Rightarrow>
   (pystr \<rightharpoonup> 'w) \<Rightarrow> pystr \<Rightarrow>
   ((error + ('t segment list \<times> 'a list \<times> nat)) \<times> ('t, 'a) event list) \<times> ('t, 'a) data_cache" where
  "process_audio_cached L cache diarization_pipeline transcription_model files audio_path =
     (case cache audio_path of
        Some r \<Rightarrow> ((Inr r, []), cache)
      | None \<Rightarrow>
         (case process_audio L diarization_pipeline transcription_model files audio_path of
            (Inl e, tr) \<Rightarrow> ((Inl e, tr), cache)
          | (Inr r, tr) \<Rightarrow> ((Inr r, tr), cache(audio_path \<mapsto> r))))"

subsection \<open>\<open>load_models\<close>\<close>

text \<open>
  The environment after \<open>load_dotenv\<close>: \<open>os.getenv(name)\<close> is \<open>env name\<close>.
  \<open>load_models\<close> ends in one of three ways: it returns the two objects, an exception
  leaves it, or \<open>st.stop()\<close> ends the script run.
\<close>

type_synonym environ = "string \<rightharpoonup> pystr"

datatype ('t, 'a, 'w) loaded =
    Loaded "('t, 'w) pipeline" "'a whisper"
  | Raised error
  | Stop

definition load_models ::
  "('t, 'a, 'w) lib \<Rightarrow> environ \<Rightarrow> ('t, 'a, 'w) loaded \<times> ('t, 'a) event list" where
  "load_models L env =
     (let hf_token = env ''HF_TOKEN'' in
      if hf_token = None \<or> hf_token = Some [] then (Stop, [St_error_token])
      else
        (case from_pretrained L hf_token of
           Inl e \<Rightarrow> (Raised e, [Call_from_pretrained hf_token])
         | Inr diarization_pipeline \<Rightarrow>
        (case load_model L of
           Inl e \<Rightarrow> (Raised e, [Call_from_pretrained hf_token, Call_load_model])
         | Inr transcription_model \<Rightarrow>
             (Loaded diarization_pipeline transcription_model,
              [Call_from_pretrained hf_token, Call_load_model]))))"

text \<open>
  \<open>@st.cache_resource\<close>: the pair returned by the first successful call is kept and
  returned by every later call.
\<close>

type_synonym ('t, 'a, 'w) resource_cache = "(('t, 'w) pipeline \<times> 'a whisper) option"

definition load_models_cached ::
  "('t, 'a, 'w) lib \<Rightarrow> environ \<Rightarrow> ('t, 'a, 'w) resource_cache \<Rightarrow>
   (('t, 'a, 'w) loaded \<times> ('t, 'a) event list) \<times> ('t, 'a, 'w) resource_cache" where
  "load_models_cached L env rc =
     (case rc of
        Some (p, w) \<Rightarrow> ((Loaded p w, []), rc)
      | None \<Rightarrow>
         (case load_models L env of
            (Loaded p w, tr) \<Rightarrow> ((Loaded p w, tr), Some (p, w))
          | (Raised e, tr) \<Rightarrow> ((Raised e, tr), None)
          | (Stop, tr) \<Rightarrow> ((Stop, tr), None)))"

subsection \<open>\<open>main\<close>: one run of the script\<close>

text \<open>
  \<open>st.session_state\<close> holds four entries, each \<open>None\<close> until a run stores a result.
\<close>

record ('t, 'a) session =
  processed_segments :: "'t segment list option"
  processed_audio_data :: "'a list option"
  processed_sample_rate :: "nat option"
  processed_file_name :: "pystr option"

definition init_session :: "('t, 'a) session" where
  "init_session =
     \<lparr>processed_segments = None, processed_audio_data = None,
      processed_sample_rate = None, processed_file_name = None\<rparr>"

text \<open>
  What persists between runs: the session state, the files on disk, and the two caches.
\<close>

record ('t, 'a, 'w) app =
  session :: "('t, 'a) session"
  files :: "pystr \<rightharpoonup> 'w"
  data_cache :: "('t, 'a) data_cache"
  models_cache :: "('t, 'a, 'w) resource_cache"

text \<open>
  What one run reads from the browser and the operating system: the uploaded file (its
  name and bytes), whether each of the two buttons was clicked, and the name
  \<open>NamedTemporaryFile\<close> picks.
\<close>

record 'w inputs =
  uploaded_file :: "(pystr \<times> 'w) option"
  process_button :: bool
  clear_button :: bool
  tmp_path :: pystr

text \<open>A run ends at the end of the script, at \<open>st.stop()\<close> or at \<open>st.rerun()\<close>.\<close>

datatype outcome = Finished | Stopped | Rerun

text \<open>The four assignments under the clear-results button.\<close>

definition clear_results :: "('t, 'a) session \<Rightarrow> ('t, 'a) session" where
  "clear_results ss =
     ss\<lparr>processed_segments := None, processed_audio_data := None,
        processed_sample_rate := None, processed_file_name := None\<rparr>"

text \<open>
  The block under \<open>if process_button\<close>: the upload is written to the temporary file,
  \<open>process_audio\<close> runs inside \<open>try\<close>, its result is stored in the session state, an
  exception is reported, and \<open>finally\<close> removes the temporary file.
\<close>

definition process_block ::
  "('t, 'a, 'w) lib \<Rightarrow> ('t, 'w) pipeline \<Rightarrow> 'a whisper \<Rightarrow> pystr \<Rightarrow> 'w \<Rightarrow> pystr \<Rightarrow>
   ('t, 'a, 'w) app \<Rightarrow> ('t, 'a, 'w) app \<times> ('t, 'a) event list" where
  "process_block L diarization_pipeline transcription_model name bytes tmp a =
     (let files1 = (files a)(tmp \<mapsto> bytes) in
      (case process_audio_cached L (data_cache a) diarization_pipeline transcription_model
              files1 tmp of
         ((Inr (segments, audio_data, sample_rate), tr), cache1) \<Rightarrow>
           (a\<lparr>session :=
                 (session a)\<lparr>processed_segments := Some segments,
                              processed_audio_data := Some audio_data,
                              processed_sample_rate := Some sample_rate,
                              processed_file_name := Some name\<rparr>,
               files := files1(tmp := None),
               data_cache := cache1\<rparr>,
            tr)
       | ((Inl e, tr), cache1) \<Rightarrow>
           (a\<lparr>files := files1(tmp := None), data_cache := cache1\<rparr>,
            tr @ [St_error_processing e])))"

text \<open>
  The download text: one entry per segment, joined by newlines.
\<close>

definition transcript_line :: "('t, 'a, 'w) lib \<Rightarrow> 't segment \<Rightarrow> pystr" where
  "transcript_line L seg =
     py ''['' @ format_2f L (seg_start seg) @ py ''s --> '' @ format_2f L (seg_end seg) @
     py ''s] '' @ seg_speaker seg @ py '': '' @ seg_text seg"

fun join :: "pystr \<Rightarrow> pystr list \<Rightarrow> pystr" where
  "join sep [] = []"
| "join sep [x] = x"
| "join sep (x # xs) = x @ sep @ join sep xs"

definition transcription_text :: "('t, 'a, 'w) lib \<Rightarrow> 't segment list \<Rightarrow> pystr" where
  "transcription_text L segments = join [10] (map (transcript_line L) segments)"

definition speaker_count :: "'t segment list \<Rightarrow> nat" where
  "speaker_count segments = length (remdups (map seg_speaker segments))"

text \<open>
  The block that shows what the session state holds. Rendering itself
  (\<open>display_transcription_with_audio\<close>) is recorded as one event.
\<close>

definition display_results ::
  "('t, 'a, 'w) lib \<Rightarrow> ('t, 'a) session \<Rightarrow> ('t, 'a) event list" where
  "display_results L ss =
     (case processed_segments ss of
        Some segments \<Rightarrow>
          (if segments \<noteq> [] then
             [St_success_complete (length segments) (speaker_count segments),
              Display_transcription,
              Download_button (transcription_text L segments)
                (py ''transcription_'' @
                 (case processed_file_name ss of None \<Rightarrow> py ''None'' | Some n \<Rightarrow> n) @
                 py ''.txt'')]
           else [St_warning_no_segments])
      | None \<Rightarrow> [St_info_click])"

text \<open>
  \<open>main()\<close>. The session entries always exist here (the four \<open>if ... not in
  st.session_state\<close> tests create them as \<open>None\<close>). \<open>st.stop()\<close> and \<open>st.rerun()\<close> leave the
  script through exceptions that are not subclasses of \<open>Exception\<close>, so the
  \<open>except Exception\<close> around \<open>load_models()\<close> lets the stop of \<open>load_models\<close> pass and
  catches only a failed construction, which it reports before stopping itself.
\<close>

definition main ::
  "('t, 'a, 'w) lib \<Rightarrow> environ \<Rightarrow> 'w inputs \<Rightarrow> ('t, 'a, 'w) app \<Rightarrow>
   outcome \<times> ('t, 'a, 'w) app \<times> ('t, 'a) event list" where
  "main L env inp a =
     (case load_models_cached L env (models_cache a) of
        ((Stop, tr0), rc) \<Rightarrow> (Stopped, a, tr0)
      | ((Raised e, tr0), rc) \<Rightarrow> (Stopped, a, tr0 @ [St_error_loading e])
      | ((Loaded diarization_pipeline transcription_model, tr0), rc) \<Rightarrow>
         (let a0 = a\<lparr>models_cache := rc\<rparr>; tr1 = tr0 @ [St_success_models] in
          (case uploaded_file inp of
             None \<Rightarrow> (Finished, a0, tr1 @ [St_info_upload])
           | Some (name, bytes) \<Rightarrow>
              (let tr2 = tr1 @ [St_success_uploaded name] in
               if processed_segments (session a0) \<noteq> None \<and> clear_button inp
               then (Rerun, a0\<lparr>session := clear_results (session a0)\<rparr>, tr2)
               else
                 (case (if process_button inp
                        then process_block L diarization_pipeline transcription_model
                               name bytes (tmp_path inp) a0
                        else (a0, [])) of
                    (a1, tr3) \<Rightarrow>
                      (Finished, a1, tr2 @ tr3 @ display_results L (session a1)))))))"

section \<open>The batch scripts: \<open>programs/main.py\<close> and \<open>programs/diarize.py\<close>\<close>

text \<open>
  \<open>output_string\<close> of \<open>main.py\<close>, built from the turn and the raw transcription text.
\<close>

definition output_string :: "('t, 'a, 'w) lib \<Rightarrow> 't turn \<Rightarrow> pystr \<Rightarrow> pystr" where
  "output_string L turn result_text =
     py ''['' @ format_2f L (turn_start turn) @ py ''s --> '' @ format_2f L (turn_end turn) @
     py ''s] '' @ turn_speaker turn @ py '': '' @ strip result_text @ [10]"

text \<open>The loop of \<open>main.py\<close> over the turns; each iteration writes one string.\<close>

fun main_py_loop ::
  "('t, 'a, 'w) lib \<Rightarrow> 'a whisper \<Rightarrow> 'a list \<Rightarrow> nat \<Rightarrow> 't turn list \<Rightarrow> ('t, 'a) event list \<Rightarrow>
   (error + unit) \<times> ('t, 'a) event list" where
  "main_py_loop L transcription_model y sr [] tr = (Inr (), tr)"
| "main_py_loop L transcription_model y sr (turn # rest) tr =
     (let start_time = turn_start turn; end_time = turn_end turn in
      (case int_mul L start_time sr of
         Inl e \<Rightarrow> (Inl e, tr)
       | Inr start_sample \<Rightarrow>
      (case int_mul L end_time sr of
         Inl e \<Rightarrow> (Inl e, tr)
       | Inr end_sample \<Rightarrow>
      (let segment = py_slice y start_sample end_sample;
           tr1 = tr @ [Call_transcribe segment] in
      (case transcription_model segment of
         Inl e \<Rightarrow> (Inl e, tr1)
       | Inr result_text \<Rightarrow>
          main_py_loop L transcription_model y sr rest
            (tr1 @ [Write (output_string L turn result_text)]))))))"

text \<open>
  \<open>main.py\<close> from top to bottom; \<open>audio\<close> is the file at \<open>input/conversation.wav\<close>. An
  exception ends the script where it is raised.
\<close>

definition main_py ::
  "('t, 'a, 'w) lib \<Rightarrow> environ \<Rightarrow> 'w option \<Rightarrow> (error + unit) \<times> ('t, 'a) event list" where
  "main_py L env audio =
     (let hf_token = env ''HF_TOKEN''; tr0 = [Call_from_pretrained hf_token] in
      (case from_pretrained L hf_token of
         Inl e \<Rightarrow> (Inl e, tr0)
       | Inr diarization_pipeline \<Rightarrow>
      (let tr1 = tr0 @ [Call_pipeline] in
      (case diarization_pipeline audio of
         Inl e \<Rightarrow> (Inl e, tr1)
       | Inr diarization \<Rightarrow>
      (let tr2 = tr1 @ [Call_load_model] in
      (case load_model L of
         Inl e \<Rightarrow> (Inl e, tr2)
       | Inr transcription_model \<Rightarrow>
      (let tr3 = tr2 @ [Call_librosa_load 16000] in
      (case librosa_load L audio 16000 of
         Inl e \<Rightarrow> (Inl e, tr3)
       | Inr (y, sr) \<Rightarrow>
          main_py_loop L transcription_model y sr diarization tr3))))))))"

text \<open>The text a run has written to the transcript file.\<close>

fun written :: "('t, 'a) event list \<Rightarrow> pystr list" where
  "written [] = []"
| "written (Write s # tr) = s # written tr"
| "written (ev # tr) = written tr"

text \<open>\<open>diarize.py\<close> from top to bottom.\<close>

definition diarize_py ::
  "('t, 'a, 'w) lib \<Rightarrow> environ \<Rightarrow> 'w option \<Rightarrow> (error + unit) \<times> ('t, 'a) event list" where
  "diarize_py L env audio =
     (let hf_token = env ''HF_TOKEN''; tr0 = [Call_from_pretrained hf_token] in
      (case from_pretrained L hf_token of
         Inl e \<Rightarrow> (Inl e, tr0)
       | Inr pipeline \<Rightarrow>
      (case pipeline audio of
         Inl e \<Rightarrow> (Inl e, tr0 @ [Call_pipeline])
       | Inr diarization \<Rightarrow>
          (Inr (), tr0 @ [Call_pipeline, Write_rttm diarization]))))"

section \<open>Observations on a run\<close>

text \<open>The turn a segment record was built from: its start, end and speaker.\<close>

definition turn_of :: "'t segment \<Rightarrow> 't turn" where
  "turn_of seg =
     \<lparr>turn_start = seg_start seg, turn_end = seg_end seg, turn_speaker = seg_speaker seg\<rparr>"

text \<open>The sample arrays handed to the transcription model, in call order.\<close>

fun transcribed :: "('t, 'a) event list \<Rightarrow> 'a list list" where
  "transcribed [] = []"
| "transcribed (Call_transcribe x # tr) = x # transcribed tr"
| "transcribed (ev # tr) = transcribed tr"

text \<open>
  Slicing the waveform again for one turn, with the same conversion of times to sample
  indices: \<open>y[int(start * sr) : int(end * sr)]\<close>, or nothing when a conversion raises.
\<close>

definition reslice :: "('t, 'a, 'w) lib \<Rightarrow> 'a list \<Rightarrow> nat \<Rightarrow> 't turn \<Rightarrow> 'a list option" where
  "reslice L y sr turn =
     (case int_mul L (turn_start turn) sr of
        Inl e \<Rightarrow> None
      | Inr start_sample \<Rightarrow>
         (case int_mul L (turn_end turn) sr of
            Inl e \<Rightarrow> None
          | Inr end_sample \<Rightarrow> Some (py_slice y start_sample end_sample)))"

text \<open>
  The line format of the specification, \<open>[start --> end] speaker: text\<close>, over the four
  rendered parts; and the rendering of a time in both scripts, \<open>{t:.2f}s\<close>.
\<close>

definition bracket_line :: "pystr \<Rightarrow> pystr \<Rightarrow> pystr \<Rightarrow> pystr \<Rightarrow> pystr" where
  "bracket_line start_s end_s speaker_s text_s =
     py ''['' @ start_s @ py '' --> '' @ end_s @ py ''] '' @ speaker_s @ py '': '' @ text_s"

definition seconds :: "('t, 'a, 'w) lib \<Rightarrow> 't \<Rightarrow> pystr" where
  "seconds L t = format_2f L t @ py ''s''"



text \<open>
  The application starts with an empty session state and empty caches; every later state
  is reached by a run of \<open>main\<close> on some input.
\<close>

definition init_app :: "(pystr \<rightharpoonup> 'w) \<Rightarrow> ('t, 'a, 'w) app" where
  "init_app fs =
     \<lparr>session = init_session, files = fs, data_cache = Map.empty, models_cache = None\<rparr>"

inductive reachable ::
  "('t, 'a, 'w) lib \<Rightarrow> environ \<Rightarrow> ('t, 'a, 'w) app \<Rightarrow> bool" for L env where
  start: "reachable L env (init_app fs)"
| run: "reachable L env a \<Longrightarrow> main L env inp a = (out, a', tr) \<Longrightarrow> reachable L env a'"

section \<open>A small concrete world\<close>

text \<open>
  Times are whole seconds (type \<open>nat\<close>), so that \<open>int(t * sr)\<close> and \<open>format(t, ".2f")\<close>
  are exact; a file is the list of its samples and decoding returns them unchanged. The
  diarization model rejects an empty file, finds no turn in silence and two turns
  otherwise; the transcription model hears nothing in silence.
\<close>

function digits :: "nat \<Rightarrow> pystr" where
  "digits n = (if n < 10 then [48 + n] else digits (n div 10) @ [48 + n mod 10])"
  by pat_completeness auto
termination
  by (relation "measure id") auto

declare digits.simps [simp del]

definition example_turns :: "nat turn list" where
  "example_turns =
     [\<lparr>turn_start = 0, turn_end = 1, turn_speaker = py ''SPEAKER_00''\<rparr>,
      \<lparr>turn_start = 1, turn_end = 2, turn_speaker = py ''SPEAKER_01''\<rparr>]"

definition silent :: "int list \<Rightarrow> bool" where
  "silent xs = list_all (\<lambda>x. x = 0) xs"

definition example_pipeline :: "(nat, int list) pipeline" where
  "example_pipeline f =
     (case f of
        None \<Rightarrow> Inl (LibraryError (py ''no such file''))
      | Some w \<Rightarrow>
          if w = [] then Inl (LibraryError (py ''empty file''))
          else if silent w then Inr []
          else Inr example_turns)"

definition example_whisper :: "int whisper" where
  "example_whisper xs = Inr (if silent xs then py '' '' else py '' hello '')"

definition example_lib :: "(nat, int, int list) lib" where
  "example_lib =
     \<lparr>from_pretrained = (\<lambda>tok. Inr example_pipeline),
      load_model = Inr example_whisper,
      resample = (\<lambda>f r. case f of None \<Rightarrow> Inl (LibraryError (py ''no such file''))
                                  | Some w \<Rightarrow> Inr w),
      int_mul = (\<lambda>t r. Inr (int (t * r))),
      format_2f = (\<lambda>t. digits t @ py ''.00'')\<rparr>"

definition example_files :: "pystr \<rightharpoonup> int list" where
  "example_files = [py ''a.wav'' \<mapsto> [1, 0], py ''silence.wav'' \<mapsto> [0, 0],
                    py ''empty.wav'' \<mapsto> []]"

text \<open>
  The token is set in \<open>example_env\<close>. \<open>example_done\<close> is the application after a first
  upload of \<open>a.wav\<close> was processed; the three inputs upload a silent file, an empty file,
  and click the clear-results button.
\<close>

definition example_env :: environ where
  "example_env = [''HF_TOKEN'' \<mapsto> py ''hf_abc'']"

definition example_done :: "(nat, int, int list) app" where
  "example_done =
     \<lparr>session =
        \<lparr>processed_segments =
           Some [\<lparr>seg_start = 0, seg_end = 1, seg_speaker = py ''SPEAKER_00'',
                  seg_text = py ''hello''\<rparr>],
         processed_audio_data = Some [1, 0],
         processed_sample_rate = Some 16000,
         processed_file_name = Some (py ''a.wav'')\<rparr>,
      files = Map.empty,
      data_cache = Map.empty,
      models_cache = Some (example_pipeline, example_whisper)\<rparr>"

definition upload_talk :: "int list inputs" where
  "upload_talk =
     \<lparr>uploaded_file = Some (py ''a.wav'', [1, 0]), process_button = True,
      clear_button = False, tmp_path = py ''/tmp/tmp1.wav''\<rparr>"

definition upload_silence :: "int list inputs" where
  "upload_silence =
     \<lparr>uploaded_file = Some (py ''silence.wav'', [0, 0]), process_button = True,
      clear_button = False, tmp_path = py ''/tmp/tmp2.wav''\<rparr>"

definition upload_empty :: "int list inputs" where
  "upload_empty =
     \<lparr>uploaded_file = Some (py ''empty.wav'', []), process_button = True,
      clear_button = False, tmp_path = py ''/tmp/tmp3.wav''\<rparr>"

definition click_clear :: "int list inputs" where
  "click_clear =
     \<lparr>uploaded_file = Some (py ''a.wav'', [1, 0]), process_button = False,
      clear_button = True, tmp_path = py ''/tmp/tmp4.wav''\<rparr>"

text \<open>
  A session state that holds two segments, and an upload of the silent file for which
  \<open>NamedTemporaryFile\<close> picks the name of the first run again (that file was removed
  at the end of the first run, so the name is free).
\<close>

definition example_two :: "(nat, int) session" where
  "example_two =
     \<lparr>processed_segments =
        Some [\<lparr>seg_start = 0, seg_end = 1, seg_speaker = py ''SPEAKER_00'',
               seg_text = py ''hello''\<rparr>,
              \<lparr>seg_start = 1, seg_end = 2, seg_speaker = py ''SPEAKER_01'',
               seg_text = py ''hi there''\<rparr>],
      processed_audio_data = Some [1, 0],
      processed_sample_rate = Some 16000,
      processed_file_name = Some (py ''a.wav'')\<rparr>"


text \<open>The application after a first run that processed an upload of \<open>a.wav\<close>.\<close>

definition example_after :: "(nat, int, int list) app" where
  "example_after = fst (snd (main example_lib example_env upload_talk (init_app Map.empty)))"

section \<open>Properties\<close>

subsection \<open>Runs in the concrete world\<close>

lemmas example_defs =
  example_lib_def example_pipeline_def example_whisper_def example_files_def example_turns_def
  librosa_load_def py_def silent_def py_slice_def slice_index_def strip_def isspace_def
  progress_update_def Let_def

lemmas example_inputs =
  example_done_def upload_talk_def upload_silence_def upload_empty_def click_clear_def
  example_env_def

lemma example_process_audio:
  "process_audio example_lib example_pipeline example_whisper example_files (py ''a.wav'') =
     (Inr ([\<lparr>seg_start = 0, seg_end = 1, seg_speaker = py ''SPEAKER_00'',
             seg_text = py ''hello''\<rparr>], [1, 0], 16000),
      [Call_pipeline, Call_librosa_load 16000, Call_transcribe [1, 0], Progress 1 2,
       Call_transcribe [], Progress 2 2])"
  by (simp add: process_audio_def example_defs)

subsection \<open>The segment loop\<close>

lemma transcribed_append: "transcribed (xs @ ys) = transcribed xs @ transcribed ys"
  by (induction xs rule: transcribed.induct) auto

text \<open>
  A loop that ends normally has appended to \<open>segments\<close> records that follow the turns in
  order, each with a non-empty text that is a stripped answer of the model.
\<close>

lemma loop_segments:
  "process_audio_loop L w y sr n i turns segs tr = (Inr out, tr') \<Longrightarrow>
   \<exists>new. out = segs @ new \<and> subseq (map turn_of new) turns \<and>
         (\<forall>s\<in>set new. seg_text s \<noteq> [] \<and> (\<exists>x raw. w x = Inr raw \<and> seg_text s = strip raw))"
proof (induction turns arbitrary: i segs tr)
  case Nil
  then show ?case by simp
next
  case (Cons t ts)
  from Cons.prems obtain i1 segs1 tr1 x raw where
    rec: "process_audio_loop L w y sr n i1 ts segs1 tr1 = (Inr out, tr')" and
    raw: "w x = Inr raw" and
    segs1: "segs1 = (if strip raw \<noteq> [] then segs @ [\<lparr>seg_start = turn_start t, seg_end = turn_end t,
              seg_speaker = turn_speaker t, seg_text = strip raw\<rparr>] else segs)"
    by (auto simp: Let_def split: sum.splits if_splits)
  from Cons.IH [OF rec] obtain new where
    new: "out = segs1 @ new" "subseq (map turn_of new) ts"
      "\<forall>s\<in>set new. seg_text s \<noteq> [] \<and> (\<exists>x raw. w x = Inr raw \<and> seg_text s = strip raw)"
    by blast
  show ?case
  proof (cases "strip raw = []")
    case True
    with new segs1 show ?thesis by auto
  next
    case False
    let ?s = "\<lparr>seg_start = turn_start t, seg_end = turn_end t,
              seg_speaker = turn_speaker t, seg_text = strip raw\<rparr>"
    have "turn_of ?s = t" by (simp add: turn_of_def)
    with new have "subseq (map turn_of (?s # new)) (t # ts)" by simp
    moreover have "out = segs @ (?s # new)" using new segs1 False by simp
    moreover have "\<forall>s\<in>set (?s # new). seg_text s \<noteq> [] \<and>
        (\<exists>x raw. w x = Inr raw \<and> seg_text s = strip raw)"
      using new False raw by auto
    ultimately show ?thesis by blast
  qed
qed

lemma loop_transcribed:
  "process_audio_loop L w y sr n i turns segs tr = (Inr out, tr') \<Longrightarrow>
   map Some (transcribed tr') = map Some (transcribed tr) @ map (reslice L y sr) turns"
proof (induction turns arbitrary: i segs tr)
  case Nil
  then show ?case by simp
next
  case (Cons t ts)
  then show ?case
    by (auto simp: Let_def reslice_def transcribed_append split: sum.splits if_splits)
qed

lemma process_audio_Inr:
  assumes "process_audio L p w fs path = (Inr (segs, y, sr), tr)"
  obtains turns where
    "p (fs path) = Inr turns" "resample L (fs path) 16000 = Inr y" "sr = 16000"
    "process_audio_loop L w y 16000 (length turns) 0 turns []
       [Call_pipeline, Call_librosa_load 16000] = (Inr segs, tr)"
  using assms
  by (auto simp: process_audio_def librosa_load_def Let_def split: sum.splits prod.splits)

subsection \<open>Records of the aggregation step\<close>

text \<open>
  C6. Every record of the list \<open>process_audio\<close> returns has the four fields of
  \<open>segment\<close>; its start, end and speaker are those of a diarization turn, and the records
  follow the turns in the order of the diarization step: read back as turns, the output is
  a subsequence of the turn sequence.
\<close>

theorem process_audio_records_follow_turns:
  assumes "process_audio L p w fs path = (Inr (segs, y, sr), tr)"
  shows "\<exists>turns. p (fs path) = Inr turns \<and> subseq (map turn_of segs) turns"
proof -
  from assms obtain turns where
    turns: "p (fs path) = Inr turns" and
    loop: "process_audio_loop L w y 16000 (length turns) 0 turns []
             [Call_pipeline, Call_librosa_load 16000] = (Inr segs, tr)"
    by (rule process_audio_Inr)
  from loop_segments [OF loop] have "subseq (map turn_of segs) turns" by auto
  with turns show ?thesis by blast
qed

theorem process_audio_records_follow_turns_witness:
  "process_audio example_lib example_pipeline example_whisper example_files (py ''a.wav'') =
     (Inr ([\<lparr>seg_start = 0, seg_end = 1, seg_speaker = py ''SPEAKER_00'',
             seg_text = py ''hello''\<rparr>], [1, 0], 16000),
      [Call_pipeline, Call_librosa_load 16000, Call_transcribe [1, 0], Progress 1 2,
       Call_transcribe [], Progress 2 2]) \<and>
   (\<exists>turns. example_pipeline (example_files (py ''a.wav'')) = Inr turns \<and>
      subseq (map turn_of [\<lparr>seg_start = 0, seg_end = 1, seg_speaker = py ''SPEAKER_00'',
                            seg_text = py ''hello''\<rparr>]) turns)"
  using example_process_audio
    process_audio_records_follow_turns [OF example_process_audio]
  by simp

subsection \<open>Slices handed to the transcription model\<close>

lemma main_py_loop_transcribed:
  "main_py_loop L w y sr turns tr = (Inr u, tr') \<Longrightarrow>
   map Some (transcribed tr') = map Some (transcribed tr) @ map (reslice L y sr) turns"
proof (induction turns arbitrary: tr)
  case Nil
  then show ?case by simp
next
  case (Cons t ts)
  then show ?case
    by (auto simp: Let_def reslice_def transcribed_append split: sum.splits if_splits)
qed

lemma main_py_Inr:
  assumes "main_py L env audio = (Inr u, tr)"
  obtains pl turns w y where
    "from_pretrained L (env ''HF_TOKEN'') = Inr pl" "pl audio = Inr turns"
    "load_model L = Inr w" "resample L audio 16000 = Inr y"
    "main_py_loop L w y 16000 turns
       [Call_from_pretrained (env ''HF_TOKEN''), Call_pipeline, Call_load_model,
        Call_librosa_load 16000] = (Inr u, tr)"
  using assms
  by (auto simp: main_py_def librosa_load_def Let_def split: sum.splits prod.splits)

lemma example_main_py:
  "main_py example_lib example_env (Some [1, 0]) =
     (Inr (),
      [Call_from_pretrained (Some (py ''hf_abc'')), Call_pipeline, Call_load_model,
       Call_librosa_load 16000, Call_transcribe [1, 0],
       Write (py ''[0.00s --> 1.00s] SPEAKER_00: hello'' @ [10]),
       Call_transcribe [],
       Write (py ''[1.00s --> 2.00s] SPEAKER_01: '' @ [10])])"
  by (simp add: main_py_def output_string_def example_env_def digits.simps example_defs)

text \<open>
  C2. In a run of \<open>process_audio\<close> and in a run of \<open>main.py\<close> that end normally, the
  sample arrays handed to the transcription model are, turn by turn, the slices
  \<open>y[int(start * sr) : int(end * sr)]\<close> of the loaded waveform: slicing the waveform
  again with the same conversion gives exactly the arrays that were transcribed.
\<close>

theorem transcribed_slices_reproduced:
  "(process_audio L p w fs path = (Inr (segs, y, sr), tr) \<longrightarrow>
      (\<exists>turns. p (fs path) = Inr turns \<and>
         map Some (transcribed tr) = map (reslice L y sr) turns)) \<and>
   (main_py L env audio = (Inr u, tr2) \<longrightarrow>
      (\<exists>pl turns y2. from_pretrained L (env ''HF_TOKEN'') = Inr pl \<and> pl audio = Inr turns \<and>
         librosa_load L audio 16000 = Inr (y2, 16000) \<and>
         map Some (transcribed tr2) = map (reslice L y2 16000) turns))"
proof (intro conjI impI)
  assume run: "process_audio L p w fs path = (Inr (segs, y, sr), tr)"
  then obtain turns where
    turns: "p (fs path) = Inr turns" and sr: "sr = 16000" and
    loop: "process_audio_loop L w y 16000 (length turns) 0 turns []
             [Call_pipeline, Call_librosa_load 16000] = (Inr segs, tr)"
    by (rule process_audio_Inr)
  from loop_transcribed [OF loop] sr turns
  show "\<exists>turns. p (fs path) = Inr turns \<and> map Some (transcribed tr) = map (reslice L y sr) turns"
    by auto
next
  assume run: "main_py L env audio = (Inr u, tr2)"
  then obtain pl turns w2 y2 where
    h: "from_pretrained L (env ''HF_TOKEN'') = Inr pl" "pl audio = Inr turns"
      "resample L audio 16000 = Inr y2" and
    loop: "main_py_loop L w2 y2 16000 turns
       [Call_from_pretrained (env ''HF_TOKEN''), Call_pipeline, Call_load_model,
        Call_librosa_load 16000] = (Inr u, tr2)"
    by (rule main_py_Inr)
  from main_py_loop_transcribed [OF loop] h
  show "\<exists>pl turns y2. from_pretrained L (env ''HF_TOKEN'') = Inr pl \<and> pl audio = Inr turns \<and>
         librosa_load L audio 16000 = Inr (y2, 16000) \<and>
         map Some (transcribed tr2) = map (reslice L y2 16000) turns"
    by (auto simp: librosa_load_def)
qed

theorem transcribed_slices_reproduced_witness:
  "process_audio example_lib example_pipeline example_whisper example_files (py ''a.wav'') =
     (Inr ([\<lparr>seg_start = 0, seg_end = 1, seg_speaker = py ''SPEAKER_00'',
             seg_text = py ''hello''\<rparr>], [1, 0], 16000),
      [Call_pipeline, Call_librosa_load 16000, Call_transcribe [1, 0], Progress 1 2,
       Call_transcribe [], Progress 2 2]) \<and>
   main_py example_lib example_env (Some [1, 0]) =
     (Inr (),
      [Call_from_pretrained (Some (py ''hf_abc'')), Call_pipeline, Call_load_model,
       Call_librosa_load 16000, Call_transcribe [1, 0],
       Write (py ''[0.00s --> 1.00s] SPEAKER_00: hello'' @ [10]),
       Call_transcribe [],
       Write (py ''[1.00s --> 2.00s] SPEAKER_01: '' @ [10])]) \<and>
   map Some [[1, 0], []] = map (reslice example_lib [1, 0] 16000) example_turns"
proof -
  note run = example_process_audio
  note batch = example_main_py
  from transcribed_slices_reproduced [of example_lib example_pipeline example_whisper
      example_files "py ''a.wav''" _ "[1, 0]" 16000 _ example_env "Some [1, 0]" "()"]
    run
  have "\<exists>turns. example_pipeline (example_files (py ''a.wav'')) = Inr turns \<and>
     map Some (transcribed [Call_pipeline, Call_librosa_load 16000, Call_transcribe [1, 0],
        Progress 1 2, Call_transcribe [], Progress 2 2 :: (nat, int) event]) =
     map (reslice example_lib [1, 0] 16000) turns"
    by blast
  moreover have "example_pipeline (example_files (py ''a.wav'')) = Inr example_turns"
    by (simp add: example_defs)
  ultimately have "map Some [[1, 0], []] = map (reslice example_lib [1, 0] 16000) example_turns"
    by simp
  with run batch show ?thesis by blast
qed

subsection \<open>One run of the application\<close>

lemma example_models_cached:
  "load_models_cached example_lib example_env (models_cache example_done) =
     ((Loaded example_pipeline example_whisper, []), Some (example_pipeline, example_whisper))"
  by (simp add: load_models_cached_def example_done_def)

lemma example_empty_upload:
  "process_audio_cached example_lib (data_cache example_done) example_pipeline example_whisper
     ((files example_done)(tmp_path upload_empty \<mapsto> [])) (tmp_path upload_empty) =
     ((Inl (LibraryError (py ''empty file'')), [Call_pipeline]), Map.empty)"
  by (simp add: process_audio_cached_def process_audio_def example_pipeline_def
      example_done_def upload_empty_def)

lemma process_audio_no_turns:
  assumes "p (fs path) = Inr []" and "resample L (fs path) 16000 = Inr y"
  shows "process_audio L p w fs path =
           (Inr ([], y, 16000), [Call_pipeline, Call_librosa_load 16000])"
  using assms by (simp add: process_audio_def librosa_load_def)

text \<open>
  C10. When the diarization step yields no turn, \<open>process_audio\<close> returns an empty segment
  list without raising: its trace holds the two loading calls and no progress update, so
  the division by the turn count is never evaluated. The run of \<open>main\<close> that processed
  the upload stores the empty list and ends with the warning that no segments were found,
  rendering nothing.
\<close>

theorem no_turns_no_division:
  assumes loaded: "load_models_cached L env (models_cache a) = ((Loaded p w, tr0), rc)"
    and upload: "uploaded_file inp = Some (name, bytes)"
    and click: "process_button inp"
    and no_clear: "\<not> (processed_segments (session a) \<noteq> None \<and> clear_button inp)"
    and miss: "data_cache a (tmp_path inp) = None"
    and no_turns: "p (Some bytes) = Inr []"
    and decoded: "resample L (Some bytes) 16000 = Inr y"
  shows "process_audio L p w ((files a)(tmp_path inp \<mapsto> bytes)) (tmp_path inp) =
           (Inr ([], y, 16000), [Call_pipeline, Call_librosa_load 16000]) \<and>
         (\<exists>a'. main L env inp a =
            (Finished, a',
             tr0 @ [St_success_models, St_success_uploaded name, Call_pipeline,
                    Call_librosa_load 16000, St_warning_no_segments]) \<and>
            processed_segments (session a') = Some [])"
proof -
  let ?fs = "(files a)(tmp_path inp \<mapsto> bytes)"
  have run: "process_audio L p w ?fs (tmp_path inp) =
      (Inr ([], y, 16000), [Call_pipeline, Call_librosa_load 16000])"
    using no_turns decoded by (intro process_audio_no_turns) simp_all
  then show ?thesis
    using loaded upload click no_clear miss
    by (simp add: main_def process_block_def process_audio_cached_def display_results_def Let_def)
qed

theorem no_turns_no_division_witness:
  "load_models_cached example_lib example_env (models_cache example_done) =
     ((Loaded example_pipeline example_whisper, []), Some (example_pipeline, example_whisper)) \<and>
   uploaded_file upload_silence = Some (py ''silence.wav'', [0, 0]) \<and>
   process_button upload_silence \<and>
   \<not> (processed_segments (session example_done) \<noteq> None \<and> clear_button upload_silence) \<and>
   data_cache example_done (tmp_path upload_silence) = None \<and>
   example_pipeline (Some [0, 0]) = Inr [] \<and>
   resample example_lib (Some [0, 0]) 16000 = Inr [0, 0] \<and>
   process_audio example_lib example_pipeline example_whisper
     ((files example_done)(tmp_path upload_silence \<mapsto> [0, 0])) (tmp_path upload_silence) =
     (Inr ([], [0, 0], 16000), [Call_pipeline, Call_librosa_load 16000]) \<and>
   (\<exists>a'. main example_lib example_env upload_silence example_done =
      (Finished, a',
       [] @ [St_success_models, St_success_uploaded (py ''silence.wav''), Call_pipeline,
             Call_librosa_load 16000, St_warning_no_segments]) \<and>
      processed_segments (session a') = Some [])"
proof -
  have h2: "uploaded_file upload_silence = Some (py ''silence.wav'', [0, 0])"
    and h3: "process_button upload_silence"
    and h4: "\<not> (processed_segments (session example_done) \<noteq> None \<and> clear_button upload_silence)"
    and h5: "data_cache example_done (tmp_path upload_silence) = None"
    by (simp_all add: upload_silence_def example_done_def)
  have h6: "example_pipeline (Some [0, 0]) = Inr []"
    and h7: "resample example_lib (Some [0, 0]) 16000 = Inr [0, 0]"
    by (simp_all add: example_pipeline_def example_lib_def silent_def)
  from no_turns_no_division [OF example_models_cached h2 h3 h4 h5 h6 h7]
    example_models_cached h2 h3 h4 h5 h6 h7
  show ?thesis by blast
qed

text \<open>
  C5. A run in which the clear-results button is clicked (it is shown once results are
  stored) sets all four entries of the session state, the segment list, the waveform, the
  sample rate and the file name, to \<open>None\<close>, and reruns the script.
\<close>

theorem clear_resets_session:
  assumes loaded: "load_models_cached L env (models_cache a) = ((Loaded p w, tr0), rc)"
    and upload: "uploaded_file inp = Some (name, bytes)"
    and shown: "processed_segments (session a) \<noteq> None"
    and click: "clear_button inp"
  shows "\<exists>a' tr. main L env inp a = (Rerun, a', tr) \<and>
           processed_segments (session a') = None \<and>
           processed_audio_data (session a') = None \<and>
           processed_sample_rate (session a') = None \<and>
           processed_file_name (session a') = None"
  using assms by (simp add: main_def clear_results_def)

theorem clear_resets_session_witness:
  "load_models_cached example_lib example_env (models_cache example_done) =
     ((Loaded example_pipeline example_whisper, []), Some (example_pipeline, example_whisper)) \<and>
   uploaded_file click_clear = Some (py ''a.wav'', [1, 0]) \<and>
   processed_segments (session example_done) \<noteq> None \<and>
   clear_button click_clear \<and>
   (\<exists>a' tr. main example_lib example_env click_clear example_done = (Rerun, a', tr) \<and>
      processed_segments (session a') = None \<and>
      processed_audio_data (session a') = None \<and>
      processed_sample_rate (session a') = None \<and>
      processed_file_name (session a') = None)"
proof -
  have h2: "uploaded_file click_clear = Some (py ''a.wav'', [1, 0])"
    and h3: "processed_segments (session example_done) \<noteq> None"
    and h4: "clear_button click_clear"
    by (simp_all add: click_clear_def example_done_def)
  from clear_resets_session [OF example_models_cached h2 h3 h4]
    example_models_cached h2 h3 h4
  show ?thesis by blast
qed

text \<open>
  C3. When \<open>process_audio\<close> raises while an upload is processed, the run reports the
  error to the user, the temporary file is gone at the end of the run, and the four
  entries of the session state are what they were before the run.
\<close>

theorem failed_run_keeps_session:
  assumes loaded: "load_models_cached L env (models_cache a) = ((Loaded p w, tr0), rc)"
    and upload: "uploaded_file inp = Some (name, bytes)"
    and click: "process_button inp"
    and no_clear: "\<not> (processed_segments (session a) \<noteq> None \<and> clear_button inp)"
    and raised: "process_audio_cached L (data_cache a) p w ((files a)(tmp_path inp \<mapsto> bytes))
                   (tmp_path inp) = ((Inl e, tr), c)"
  shows "\<exists>a' tr'. main L env inp a = (Finished, a', tr') \<and>
           St_error_processing e \<in> set tr' \<and>
           files a' (tmp_path inp) = None \<and>
           session a' = session a"
  using assms by (simp add: main_def process_block_def Let_def)

theorem failed_run_keeps_session_witness:
  "load_models_cached example_lib example_env (models_cache example_done) =
     ((Loaded example_pipeline example_whisper, []), Some (example_pipeline, example_whisper)) \<and>
   uploaded_file upload_empty = Some (py ''empty.wav'', []) \<and>
   process_button upload_empty \<and>
   \<not> (processed_segments (session example_done) \<noteq> None \<and> clear_button upload_empty) \<and>
   process_audio_cached example_lib (data_cache example_done) example_pipeline example_whisper
     ((files example_done)(tmp_path upload_empty \<mapsto> [])) (tmp_path upload_empty) =
     ((Inl (LibraryError (py ''empty file'')), [Call_pipeline]), Map.empty) \<and>
   (\<exists>a' tr'. main example_lib example_env upload_empty example_done = (Finished, a', tr') \<and>
      St_error_processing (LibraryError (py ''empty file'')) \<in> set tr' \<and>
      files a' (tmp_path upload_empty) = None \<and>
      session a' = session example_done)"
proof -
  have h2: "uploaded_file upload_empty = Some (py ''empty.wav'', [])"
    and h3: "process_button upload_empty"
    and h4: "\<not> (processed_segments (session example_done) \<noteq> None \<and> clear_button upload_empty)"
    by (simp_all add: upload_empty_def example_done_def)
  from failed_run_keeps_session [OF example_models_cached h2 h3 h4 example_empty_upload]
    example_models_cached h2 h3 h4 example_empty_upload
  show ?thesis by blast
qed

subsection \<open>The sample rate\<close>

lemma process_audio_rate:
  "process_audio L p w fs path = (Inr (segs, y, sr), tr) \<Longrightarrow> sr = 16000"
  by (erule process_audio_Inr)

lemma process_audio_cached_rate:
  assumes "process_audio_cached L c p w fs path = ((res, tr), c')"
    and "\<forall>k segs y sr. c k = Some (segs, y, sr) \<longrightarrow> sr = 16000"
  shows "(\<forall>k segs y sr. c' k = Some (segs, y, sr) \<longrightarrow> sr = 16000) \<and>
         (\<forall>segs y sr. res = Inr (segs, y, sr) \<longrightarrow> sr = 16000)"
proof (cases "c path")
  case None
  obtain r t where pa: "process_audio L p w fs path = (r, t)" by (cases "process_audio L p w fs path")
  show ?thesis
  proof (cases r)
    case (Inl e)
    with assms None pa show ?thesis by (auto simp: process_audio_cached_def)
  next
    case (Inr v)
    obtain segs y sr where v: "v = (segs, y, sr)" by (cases v)
    with pa Inr have "sr = 16000" by (auto dest: process_audio_rate)
    with assms None pa Inr v show ?thesis
      by (auto simp: process_audio_cached_def split: if_splits)
  qed
next
  case (Some v)
  with assms show ?thesis by (auto simp: process_audio_cached_def)
qed

lemma process_block_rate:
  assumes pb: "process_block L p w name bytes tmp a = (a', tr)"
    and cache: "\<forall>k segs y sr. data_cache a k = Some (segs, y, sr) \<longrightarrow> sr = 16000"
    and rate: "processed_sample_rate (session a) \<in> {None, Some 16000}"
  shows "(\<forall>k segs y sr. data_cache a' k = Some (segs, y, sr) \<longrightarrow> sr = 16000) \<and>
         processed_sample_rate (session a') \<in> {None, Some 16000}"
proof -
  obtain res t c' where
    pc: "process_audio_cached L (data_cache a) p w ((files a)(tmp \<mapsto> bytes)) tmp = ((res, t), c')"
    by (metis surj_pair)
  from process_audio_cached_rate [OF pc cache] have
    c': "\<forall>k segs y sr. c' k = Some (segs, y, sr) \<longrightarrow> sr = 16000" and
    res: "\<forall>segs y sr. res = Inr (segs, y, sr) \<longrightarrow> sr = 16000"
    by blast+
  show ?thesis
  proof (cases res)
    case (Inl e)
    with pb pc have "a' = a\<lparr>files := ((files a)(tmp \<mapsto> bytes))(tmp := None), data_cache := c'\<rparr>"
      by (simp add: process_block_def)
    with c' rate show ?thesis by simp
  next
    case (Inr v)
    obtain segs y sr where v: "v = (segs, y, sr)" by (cases v)
    with res Inr have sr: "sr = 16000" by simp
    from pb pc Inr v have "data_cache a' = c'" "processed_sample_rate (session a') = Some sr"
      by (auto simp: process_block_def)
    with c' sr show ?thesis by simp
  qed
qed

lemma main_rate:
  assumes m: "main L env inp a = (out, a', tr)"
    and cache: "\<forall>k segs y sr. data_cache a k = Some (segs, y, sr) \<longrightarrow> sr = 16000"
    and rate: "processed_sample_rate (session a) \<in> {None, Some 16000}"
  shows "(\<forall>k segs y sr. data_cache a' k = Some (segs, y, sr) \<longrightarrow> sr = 16000) \<and>
         processed_sample_rate (session a') \<in> {None, Some 16000}"
proof -
  obtain ld tr0 rc where lm: "load_models_cached L env (models_cache a) = ((ld, tr0), rc)"
    by (metis surj_pair)
  show ?thesis
  proof (cases ld)
    case (Loaded p w)
    let ?a0 = "a\<lparr>models_cache := rc\<rparr>"
    have a0: "\<forall>k segs y sr. data_cache ?a0 k = Some (segs, y, sr) \<longrightarrow> sr = 16000"
      "processed_sample_rate (session ?a0) \<in> {None, Some 16000}"
      using cache rate by simp_all
    show ?thesis
    proof (cases "uploaded_file inp")
      case None
      with m lm Loaded have "a' = ?a0" by (simp add: main_def)
      with a0 show ?thesis by simp
    next
      case (Some u)
      obtain name bytes where u: "u = (name, bytes)" by (cases u)
      show ?thesis
      proof (cases "processed_segments (session a) \<noteq> None \<and> clear_button inp")
        case True
        with m lm Loaded Some u have "a' = ?a0\<lparr>session := clear_results (session ?a0)\<rparr>"
          by (simp add: main_def Let_def)
        with a0 show ?thesis by (simp add: clear_results_def)
      next
        case False
        show ?thesis
        proof (cases "process_button inp")
          case True
          obtain a1 tr3 where
            pb: "process_block L p w name bytes (tmp_path inp) ?a0 = (a1, tr3)"
            by (metis surj_pair)
          with m lm Loaded Some u False True have "a' = a1"
            by (auto simp: main_def Let_def split: if_splits)
          with process_block_rate [OF pb a0] show ?thesis by simp
        next
          case no_click: False
          with m lm Loaded Some u False have "a' = ?a0"
            by (auto simp: main_def Let_def split: if_splits)
          with a0 show ?thesis by simp
        qed
      qed
    qed
  next
    case (Raised e)
    with m lm have "a' = a" by (simp add: main_def)
    with cache rate show ?thesis by simp
  next
    case Stop
    with m lm have "a' = a" by (simp add: main_def)
    with cache rate show ?thesis by simp
  qed
qed

lemma reachable_rate:
  "reachable L env a \<Longrightarrow>
   (\<forall>k segs y sr. data_cache a k = Some (segs, y, sr) \<longrightarrow> sr = 16000) \<and>
   processed_sample_rate (session a) \<in> {None, Some 16000}"
proof (induction rule: reachable.induct)
  case (start fs)
  show ?case by (simp add: init_app_def init_session_def)
next
  case (run a inp out a' tr)
  from main_rate [OF run.hyps(2)] run.IH show ?case by blast
qed

lemma main_py_loop_events:
  "ev \<in> set (snd (main_py_loop L w y sr turns tr)) \<Longrightarrow>
   ev \<in> set tr \<or> ev \<in> range Call_transcribe \<or> ev \<in> range Write"
proof (induction turns arbitrary: tr)
  case Nil
  then show ?case by simp
next
  case (Cons t ts)
  from Cons.prems show ?case
    by (auto simp: Let_def split: sum.splits dest!: Cons.IH)
qed

lemma main_py_events:
  "ev \<in> set (snd (main_py L env audio)) \<Longrightarrow>
   ev \<in> {Call_from_pretrained (env ''HF_TOKEN''), Call_pipeline, Call_load_model,
         Call_librosa_load 16000} \<or> ev \<in> range Call_transcribe \<or> ev \<in> range Write"
  by (auto simp: main_py_def librosa_load_def Let_def split: sum.splits prod.splits
      dest!: main_py_loop_events)

lemma example_after_session:
  "session example_after =
     \<lparr>processed_segments =
        Some [\<lparr>seg_start = 0, seg_end = 1, seg_speaker = py ''SPEAKER_00'',
               seg_text = py ''hello''\<rparr>],
      processed_audio_data = Some [1, 0],
      processed_sample_rate = Some 16000,
      processed_file_name = Some (py ''a.wav'')\<rparr>"
  by (simp add: example_after_def main_def load_models_cached_def load_models_def
      process_block_def process_audio_cached_def process_audio_def init_app_def init_session_def
      example_inputs example_defs)

text \<open>
  C9. The sample rate \<open>process_audio\<close> returns is 16000; in every state the application
  can reach, the sample rate stored in the session state is 16000 whenever one is stored;
  and the only rate \<open>main.py\<close> asks \<open>librosa.load\<close> for is 16000.
\<close>

theorem sample_rate_is_16000:
  "(process_audio L p w fs path = (Inr (segs, y, sr), tr) \<longrightarrow> sr = 16000) \<and>
   (reachable L env a \<longrightarrow> processed_sample_rate (session a) \<in> {None, Some 16000}) \<and>
   (\<forall>r. Call_librosa_load r \<in> set (snd (main_py L env audio)) \<longrightarrow> r = 16000)"
proof (intro conjI impI allI)
  assume "process_audio L p w fs path = (Inr (segs, y, sr), tr)"
  then show "sr = 16000" by (rule process_audio_rate)
next
  assume "reachable L env a"
  then show "processed_sample_rate (session a) \<in> {None, Some 16000}"
    using reachable_rate by blast
next
  fix r
  assume "Call_librosa_load r \<in> set (snd (main_py L env audio))"
  then show "r = 16000" by (auto dest!: main_py_events)
qed

theorem sample_rate_is_16000_witness:
  "process_audio example_lib example_pipeline example_whisper example_files (py ''a.wav'') =
     (Inr ([\<lparr>seg_start = 0, seg_end = 1, seg_speaker = py ''SPEAKER_00'',
             seg_text = py ''hello''\<rparr>], [1, 0], 16000),
      [Call_pipeline, Call_librosa_load 16000, Call_transcribe [1, 0], Progress 1 2,
       Call_transcribe [], Progress 2 2]) \<and>
   reachable example_lib example_env example_after \<and>
   processed_sample_rate (session example_after) = Some 16000 \<and>
   processed_sample_rate (session example_after) \<in> {None, Some 16000} \<and>
   Call_librosa_load 16000 \<in> set (snd (main_py example_lib example_env (Some [1, 0])))"
proof -
  have r: "reachable example_lib example_env example_after"
    unfolding example_after_def by (metis reachable.intros prod.collapse)
  have l: "Call_librosa_load 16000 \<in> set (snd (main_py example_lib example_env (Some [1, 0])))"
    by (simp add: example_main_py)
  have s: "processed_sample_rate (session example_after) = Some 16000"
    by (simp add: example_after_session)
  from sample_rate_is_16000 [of example_lib example_pipeline example_whisper example_files
      "py ''a.wav''" _ "[1, 0]" 16000 _ example_env example_after "Some [1, 0]"]
    r have "processed_sample_rate (session example_after) \<in> {None, Some 16000}"
    by blast
  with example_process_audio r l s show ?thesis by blast
qed

subsection \<open>Repeated runs\<close>













subsection \<open>The transcript text\<close>

lemma transcript_line_bracket:
  "transcript_line L =
     (\<lambda>seg. bracket_line (seconds L (seg_start seg)) (seconds L (seg_end seg))
        (seg_speaker seg) (seg_text seg))"
  by (rule ext) (simp add: transcript_line_def bracket_line_def seconds_def py_def)

lemma output_string_bracket:
  "output_string L turn raw =
     bracket_line (seconds L (turn_start turn)) (seconds L (turn_end turn)) (turn_speaker turn)
       (strip raw) @ [10]"
  by (simp add: output_string_def bracket_line_def seconds_def py_def)

lemma written_append: "written (xs @ ys) = written xs @ written ys"
  by (induction xs rule: written.induct) auto

lemma main_py_loop_written:
  "main_py_loop L w y sr turns tr = (Inr u, tr') \<Longrightarrow>
   \<exists>new. written tr' = written tr @ new \<and>
     list_all2 (\<lambda>line turn. \<exists>x raw. reslice L y sr turn = Some x \<and> w x = Inr raw \<and>
                  line = output_string L turn raw) new turns"
proof (induction turns arbitrary: tr)
  case Nil
  then show ?case by simp
next
  case (Cons t ts)
  from Cons.prems obtain x raw where
    x: "reslice L y sr t = Some x" and raw: "w x = Inr raw" and
    rec: "main_py_loop L w y sr ts (tr @ [Call_transcribe x, Write (output_string L t raw)]) =
            (Inr u, tr')"
    by (auto simp: Let_def reslice_def split: sum.splits)
  from Cons.IH [OF rec] obtain new where
    new: "written tr' = written (tr @ [Call_transcribe x, Write (output_string L t raw)]) @ new"
      "list_all2 (\<lambda>line turn. \<exists>x raw. reslice L y sr turn = Some x \<and> w x = Inr raw \<and>
                  line = output_string L turn raw) new ts"
    by blast
  have "written tr' = written tr @ (output_string L t raw # new)"
    using new(1) by (simp add: written_append)
  moreover have "list_all2 (\<lambda>line turn. \<exists>x raw. reslice L y sr turn = Some x \<and> w x = Inr raw \<and>
                  line = output_string L turn raw) (output_string L t raw # new) (t # ts)"
    using new(2) x raw by auto
  ultimately show ?case by blast
qed

lemma loop_segments_text:
  "process_audio_loop L w y sr n i turns segs tr = (Inr out, tr') \<Longrightarrow>
   \<exists>new. out = segs @ new \<and>
     (\<forall>s\<in>set new. \<exists>x raw. reslice L y sr (turn_of s) = Some x \<and> w x = Inr raw \<and>
                       seg_text s = strip raw)"
proof (induction turns arbitrary: i segs tr)
  case Nil
  then show ?case by simp
next
  case (Cons t ts)
  from Cons.prems obtain i1 segs1 tr1 x raw where
    rec: "process_audio_loop L w y sr n i1 ts segs1 tr1 = (Inr out, tr')" and
    x: "reslice L y sr t = Some x" and raw: "w x = Inr raw" and
    segs1: "segs1 = (if strip raw \<noteq> [] then segs @ [\<lparr>seg_start = turn_start t, seg_end = turn_end t,
              seg_speaker = turn_speaker t, seg_text = strip raw\<rparr>] else segs)"
    by (auto simp: Let_def reslice_def split: sum.splits if_splits)
  from Cons.IH [OF rec] obtain new where
    new: "out = segs1 @ new"
      "\<forall>s\<in>set new. \<exists>x raw. reslice L y sr (turn_of s) = Some x \<and> w x = Inr raw \<and>
                       seg_text s = strip raw"
    by blast
  show ?case
  proof (cases "strip raw = []")
    case True
    with new segs1 show ?thesis by auto
  next
    case False
    let ?s = "\<lparr>seg_start = turn_start t, seg_end = turn_end t,
              seg_speaker = turn_speaker t, seg_text = strip raw\<rparr>"
    have t: "turn_of ?s = t" by (simp add: turn_of_def)
    have "out = segs @ (?s # new)" using new segs1 False by simp
    moreover have "\<forall>s\<in>set (?s # new). \<exists>x raw. reslice L y sr (turn_of s) = Some x \<and>
        w x = Inr raw \<and> seg_text s = strip raw"
      using new(2) x raw t by auto
    ultimately show ?thesis by blast
  qed
qed

lemma example_display_two:
  "display_results example_lib example_two =
     [St_success_complete 2 2, Display_transcription,
      Download_button
        (py ''[0.00s --> 1.00s] SPEAKER_00: hello'' @ [10] @
         py ''[1.00s --> 2.00s] SPEAKER_01: hi there'')
        (py ''transcription_a.wav.txt'')]"
  by (simp add: display_results_def transcription_text_def transcript_line_def
      speaker_count_def example_two_def example_lib_def digits.simps py_def)

text \<open>
  C7. The text of every record \<open>process_audio\<close> returns is the stripped answer of the
  transcription model on the slice of the record's turn. The text offered by the download
  button is one entry per stored segment, joined by newlines, and a run of \<open>main.py\<close>
  that ends normally has written one string per turn, each ending in a newline, whose text
  is the stripped answer of the loaded model on that turn's slice. Every entry has the
  format \<open>[start --> end] speaker: text\<close>: the start and end times (two decimals and the
  unit \<open>s\<close>) in brackets with an arrow between them, the speaker label, a colon, and the
  text.
\<close>

theorem transcript_lines_bracket_format:
  "(process_audio L p w fs path = (Inr (segs, y, sr), tr0) \<longrightarrow>
      (\<forall>seg\<in>set segs. \<exists>x raw. reslice L y sr (turn_of seg) = Some x \<and> w x = Inr raw \<and>
                          seg_text seg = strip raw)) \<and>
   (Download_button data file_name \<in> set (display_results L ss) \<longrightarrow>
      (\<exists>segments. processed_segments ss = Some segments \<and>
         data = join [10] (map (\<lambda>seg. bracket_line (seconds L (seg_start seg))
                    (seconds L (seg_end seg)) (seg_speaker seg) (seg_text seg)) segments))) \<and>
   (main_py L env audio = (Inr u, tr) \<longrightarrow>
      (\<exists>pl turns w2 y2. from_pretrained L (env ''HF_TOKEN'') = Inr pl \<and> pl audio = Inr turns \<and>
         load_model L = Inr w2 \<and> resample L audio 16000 = Inr y2 \<and>
         list_all2 (\<lambda>line turn. \<exists>x raw. reslice L y2 16000 turn = Some x \<and> w2 x = Inr raw \<and>
                    line = bracket_line (seconds L (turn_start turn))
                      (seconds L (turn_end turn)) (turn_speaker turn) (strip raw) @ [10])
           (written tr) turns))"
proof (intro conjI impI)
  assume "process_audio L p w fs path = (Inr (segs, y, sr), tr0)"
  then obtain turns where sr: "sr = 16000" and
    loop: "process_audio_loop L w y 16000 (length turns) 0 turns []
       [Call_pipeline, Call_librosa_load 16000] = (Inr segs, tr0)"
    by (rule process_audio_Inr)
  from loop_segments_text [OF loop] sr
  show "\<forall>seg\<in>set segs. \<exists>x raw. reslice L y sr (turn_of seg) = Some x \<and> w x = Inr raw \<and>
                          seg_text seg = strip raw"
    by auto
next
  assume "Download_button data file_name \<in> set (display_results L ss)"
  then show "\<exists>segments. processed_segments ss = Some segments \<and>
         data = join [10] (map (\<lambda>seg. bracket_line (seconds L (seg_start seg))
                    (seconds L (seg_end seg)) (seg_speaker seg) (seg_text seg)) segments)"
    by (auto simp: display_results_def transcription_text_def transcript_line_bracket
        split: option.splits if_splits)
next
  assume "main_py L env audio = (Inr u, tr)"
  then obtain pl turns w2 y2 where
    h: "from_pretrained L (env ''HF_TOKEN'') = Inr pl" "pl audio = Inr turns"
      "load_model L = Inr w2" "resample L audio 16000 = Inr y2" and
    loop: "main_py_loop L w2 y2 16000 turns
       [Call_from_pretrained (env ''HF_TOKEN''), Call_pipeline, Call_load_model,
        Call_librosa_load 16000] = (Inr u, tr)"
    by (rule main_py_Inr)
  from main_py_loop_written [OF loop]
  have "list_all2 (\<lambda>line turn. \<exists>x raw. reslice L y2 16000 turn = Some x \<and> w2 x = Inr raw \<and>
          line = output_string L turn raw) (written tr) turns"
    by simp
  then have "list_all2 (\<lambda>line turn. \<exists>x raw. reslice L y2 16000 turn = Some x \<and> w2 x = Inr raw \<and>
                    line = bracket_line (seconds L (turn_start turn))
                      (seconds L (turn_end turn)) (turn_speaker turn) (strip raw) @ [10])
           (written tr) turns"
    by (simp add: output_string_bracket)
  with h show "\<exists>pl turns w2 y2. from_pretrained L (env ''HF_TOKEN'') = Inr pl \<and> pl audio = Inr turns \<and>
         load_model L = Inr w2 \<and> resample L audio 16000 = Inr y2 \<and>
         list_all2 (\<lambda>line turn. \<exists>x raw. reslice L y2 16000 turn = Some x \<and> w2 x = Inr raw \<and>
                    line = bracket_line (seconds L (turn_start turn))
                      (seconds L (turn_end turn)) (turn_speaker turn) (strip raw) @ [10])
           (written tr) turns"
    by blast
qed

theorem transcript_lines_bracket_format_witness:
  "process_audio example_lib example_pipeline example_whisper example_files (py ''a.wav'') =
     (Inr ([\<lparr>seg_start = 0, seg_end = 1, seg_speaker = py ''SPEAKER_00'',
             seg_text = py ''hello''\<rparr>], [1, 0], 16000),
      [Call_pipeline, Call_librosa_load 16000, Call_transcribe [1, 0], Progress 1 2,
       Call_transcribe [], Progress 2 2]) \<and>
   Download_button
     (py ''[0.00s --> 1.00s] SPEAKER_00: hello'' @ [10] @
      py ''[1.00s --> 2.00s] SPEAKER_01: hi there'')
     (py ''transcription_a.wav.txt'') \<in> set (display_results example_lib example_two) \<and>
   main_py example_lib example_env (Some [1, 0]) =
     (Inr (),
      [Call_from_pretrained (Some (py ''hf_abc'')), Call_pipeline, Call_load_model,
       Call_librosa_load 16000, Call_transcribe [1, 0],
       Write (py ''[0.00s --> 1.00s] SPEAKER_00: hello'' @ [10]),
       Call_transcribe [],
       Write (py ''[1.00s --> 2.00s] SPEAKER_01: '' @ [10])]) \<and>
   (\<exists>x raw. reslice example_lib [1, 0] 16000
        (turn_of \<lparr>seg_start = 0, seg_end = 1, seg_speaker = py ''SPEAKER_00'',
                  seg_text = py ''hello''\<rparr>) = Some x \<and>
      example_whisper x = Inr raw \<and>
      seg_text \<lparr>seg_start = 0::nat, seg_end = 1, seg_speaker = py ''SPEAKER_00'',
                seg_text = py ''hello''\<rparr> = strip raw) \<and>
   (\<exists>segments. processed_segments example_two = Some segments \<and>
      py ''[0.00s --> 1.00s] SPEAKER_00: hello'' @ [10] @
      py ''[1.00s --> 2.00s] SPEAKER_01: hi there'' =
        join [10] (map (\<lambda>seg. bracket_line (seconds example_lib (seg_start seg))
                    (seconds example_lib (seg_end seg)) (seg_speaker seg) (seg_text seg))
                 segments)) \<and>
   (\<exists>pl turns w2 y2. from_pretrained example_lib (example_env ''HF_TOKEN'') = Inr pl \<and>
      pl (Some [1, 0]) = Inr turns \<and> load_model example_lib = Inr w2 \<and>
      resample example_lib (Some [1, 0]) 16000 = Inr y2 \<and>
      list_all2 (\<lambda>line turn. \<exists>x raw. reslice example_lib y2 16000 turn = Some x \<and>
                    w2 x = Inr raw \<and>
                    line = bracket_line (seconds example_lib (turn_start turn))
                      (seconds example_lib (turn_end turn)) (turn_speaker turn) (strip raw) @ [10])
        (written [Call_from_pretrained (Some (py ''hf_abc'')), Call_pipeline, Call_load_model,
           Call_librosa_load 16000, Call_transcribe [1, 0],
           Write (py ''[0.00s --> 1.00s] SPEAKER_00: hello'' @ [10]),
           Call_transcribe [],
           Write (py ''[1.00s --> 2.00s] SPEAKER_01: '' @ [10]) :: (nat, int) event]) turns)"
proof -
  have d: "Download_button
     (py ''[0.00s --> 1.00s] SPEAKER_00: hello'' @ [10] @
      py ''[1.00s --> 2.00s] SPEAKER_01: hi there'')
     (py ''transcription_a.wav.txt'') \<in> set (display_results example_lib example_two)"
    by (simp add: example_display_two)
  note inst = transcript_lines_bracket_format [of example_lib example_pipeline example_whisper
      example_files "py ''a.wav''" _ "[1, 0]" 16000 _
      "py ''[0.00s --> 1.00s] SPEAKER_00: hello'' @ [10] @
       py ''[1.00s --> 2.00s] SPEAKER_01: hi there''"
      "py ''transcription_a.wav.txt''" example_two example_env "Some [1, 0]" "()"]
  from inst example_process_audio
  have "\<forall>seg\<in>set [\<lparr>seg_start = 0, seg_end = 1, seg_speaker = py ''SPEAKER_00'',
                   seg_text = py ''hello''\<rparr>].
      \<exists>x raw. reslice example_lib [1, 0] 16000 (turn_of seg) = Some x \<and>
        example_whisper x = Inr raw \<and> seg_text seg = strip raw"
    by blast
  then have rec: "\<exists>x raw. reslice example_lib [1, 0] 16000
        (turn_of \<lparr>seg_start = 0, seg_end = 1, seg_speaker = py ''SPEAKER_00'',
                  seg_text = py ''hello''\<rparr>) = Some x \<and>
      example_whisper x = Inr raw \<and>
      seg_text \<lparr>seg_start = 0::nat, seg_end = 1, seg_speaker = py ''SPEAKER_00'',
                seg_text = py ''hello''\<rparr> = strip raw"
    by (rule bspec) simp
  from inst d example_main_py example_process_audio rec
  show ?thesis by blast
qed

subsection \<open>Turns without text\<close>

text \<open>
  \<open>process_audio\<close> keeps a record only when its stripped text is not empty.
\<close>

lemma process_audio_texts_nonempty:
  assumes "process_audio L p w fs path = (Inr (segs, y, sr), tr)"
  shows "\<forall>s\<in>set segs. seg_text s \<noteq> []"
proof -
  from assms obtain turns where
    "process_audio_loop L w y 16000 (length turns) 0 turns []
       [Call_pipeline, Call_librosa_load 16000] = (Inr segs, tr)"
    by (rule process_audio_Inr)
  from loop_segments [OF this] show ?thesis by auto
qed

text \<open>
  C1. \<open>main.py\<close> has no such test. On a file with two turns, where the model hears nothing
  in the second one (its text is a single blank, empty once stripped), \<open>main.py\<close> writes a
  line for the second turn all the same, with nothing after the colon; \<open>process_audio\<close>
  on the same file returns the first record only.
\<close>

theorem main_py_writes_empty_text:
  "example_pipeline (Some [1, 0]) = Inr example_turns \<and>
   map (reslice example_lib [1, 0] 16000) example_turns = [Some [1, 0], Some []] \<and>
   example_whisper [] = Inr (py '' '') \<and>
   strip (py '' '') = [] \<and>
   written (snd (main_py example_lib example_env (Some [1, 0]))) =
     [py ''[0.00s --> 1.00s] SPEAKER_00: hello'' @ [10],
      py ''[1.00s --> 2.00s] SPEAKER_01: '' @ [10]] \<and>
   map seg_text (fst (projr (fst (process_audio example_lib example_pipeline example_whisper
       example_files (py ''a.wav''))))) = [py ''hello'']"
proof -
  have turns: "example_pipeline (Some [1, 0]) = Inr example_turns"
    and slices: "map (reslice example_lib [1, 0] 16000) example_turns = [Some [1, 0], Some []]"
    and blank: "example_whisper [] = Inr (py '' '')"
    and stripped: "strip (py '' '') = []"
    by (simp_all add: reslice_def example_defs)
  have batch: "written (snd (main_py example_lib example_env (Some [1, 0]))) =
     [py ''[0.00s --> 1.00s] SPEAKER_00: hello'' @ [10],
      py ''[1.00s --> 2.00s] SPEAKER_01: '' @ [10]]"
    by (simp add: example_main_py)
  have ui: "map seg_text (fst (projr (fst (process_audio example_lib example_pipeline
       example_whisper example_files (py ''a.wav''))))) = [py ''hello'']"
    by (simp add: example_process_audio)
  from turns slices blank stripped batch ui show ?thesis by blast
qed

subsection \<open>The missing token\<close>

lemma main_py_loop_extends:
  "prefix tr (snd (main_py_loop L w y sr turns tr))"
proof (induction turns arbitrary: tr)
  case Nil
  show ?case by simp
next
  case (Cons t ts)
  show ?case
    using Cons.IH by (auto simp: Let_def split: sum.splits intro: append_prefixD)
qed

lemma main_py_starts:
  "\<exists>more. snd (main_py L env audio) = Call_from_pretrained (env ''HF_TOKEN'') # more"
proof -
  let ?tr = "[Call_from_pretrained (env ''HF_TOKEN''), Call_pipeline, Call_load_model,
             Call_librosa_load 16000]"
  have "\<exists>more. snd (main_py_loop L w y 16000 turns ?tr) =
          Call_from_pretrained (env ''HF_TOKEN'') # more" for w y turns
    using main_py_loop_extends [of ?tr L w y 16000 turns] by (auto simp: prefix_def)
  then show ?thesis
    by (auto simp: main_py_def librosa_load_def Let_def split: sum.splits prod.splits)
qed

text \<open>
  C4. Without \<open>HF_TOKEN\<close> in the environment, \<open>load_models\<close> reports the missing token and
  stops the script before any model is constructed. \<open>main.py\<close> and \<open>diarize.py\<close> do
  not: the first thing each of them does is to call \<open>Pipeline.from_pretrained\<close> with no
  token, and neither ever reports that the token is missing.
\<close>

theorem batch_scripts_do_not_check_token:
  "load_models L Map.empty = (Stop, [St_error_token]) \<and>
   (\<exists>more. snd (main_py L Map.empty audio) = Call_from_pretrained None # more) \<and>
   St_error_token \<notin> set (snd (main_py L Map.empty audio)) \<and>
   (\<exists>more. snd (diarize_py L Map.empty audio) = Call_from_pretrained None # more) \<and>
   St_error_token \<notin> set (snd (diarize_py L Map.empty audio))"
proof (intro conjI)
  show "load_models L Map.empty = (Stop, [St_error_token])"
    by (simp add: load_models_def)
  show "\<exists>more. snd (main_py L Map.empty audio) = Call_from_pretrained None # more"
    using main_py_starts [of L Map.empty audio] by simp
  show "St_error_token \<notin> set (snd (main_py L Map.empty audio))"
    by (auto dest!: main_py_events)
  show "\<exists>more. snd (diarize_py L Map.empty audio) = Call_from_pretrained None # more"
    by (simp add: diarize_py_def Let_def split: sum.splits)
  show "St_error_token \<notin> set (snd (diarize_py L Map.empty audio))"
    by (simp add: diarize_py_def Let_def split: sum.splits)
qed

end
